theory Spec2Isabelle
  imports Main "HOL-Library.Word"
begin

unbundle bit_operations_syntax

section \<open>The arena allocator of components/arena.c (multi-block version)\<close>

text \<open>
  The allocator works on 64-bit unsigned integers throughout (\<open>uint64_t\<close>,
  \<open>uintptr_t\<close> and \<open>size_t\<close> on an LP64 platform), so every quantity is a
  \<open>64 word\<close>: addition, subtraction and multiplication wrap around as in C.
  An address is a \<open>64 word\<close> as well, and the null pointer is the address 0.

  The linked list of blocks (\<open>ArenaBlock *head\<close>, \<open>next\<close>) is a HOL list, the
  head block first; the null \<open>head\<close> is the empty list.  The bytes stored in the
  buffers are not part of the model.  Of \<open>memset\<close> and \<open>memcpy\<close> the model keeps
  what decides whether the call is defined: the range written must lie in the
  buffer of the block it was handed out from, the range read must be readable,
  and the two ranges of a \<open>memcpy\<close> must not overlap.  A call that is not
  defined, like a read through a null pointer, has the result \<open>None\<close>.
\<close>

type_synonym u64 = "64 word"

definition NULL :: u64 where
  "NULL = 0"

definition ARENA_DEFAULT_ALIGNMENT :: u64 where
  "ARENA_DEFAULT_ALIGNMENT = 8"

definition ARENA_MAX_ALIGNMENT :: u64 where
  "ARENA_MAX_ALIGNMENT = 16"

record ArenaBlock =
  buffer :: u64
  capacity :: u64
  used :: u64

record Arena =
  head :: "ArenaBlock list"
  alignment :: u64
  max_align :: u64

record ArenaTemp =
  temp_arena :: bool
  temp_used :: u64

text \<open>
  The C library and the memory of the caller are the environment of a call:
  \<open>posix_memalign al n\<close> is the address stored by a call
  \<open>posix_memalign(&mem, al, n)\<close> that returns 0, and \<open>None\<close> when it returns an
  error; \<open>malloc_block\<close> tells whether \<open>malloc(sizeof(ArenaBlock))\<close> returns a
  block record; \<open>readable p n\<close> tells whether the \<open>n\<close> bytes at the address \<open>p\<close>, a
  pointer the caller passes in, may be read.  Every public function makes at
  most one call of each, so one environment per call is enough.
\<close>

record libc =
  posix_memalign :: "u64 \<Rightarrow> u64 \<Rightarrow> u64 option"
  malloc_block :: bool
  readable :: "u64 \<Rightarrow> u64 \<Rightarrow> bool"

subsection \<open>Helpers\<close>

definition align_forward :: "u64 \<Rightarrow> u64 \<Rightarrow> u64" where
  "align_forward ptr algn = (ptr + (algn - 1)) AND NOT (algn - 1)"

definition not_pow2 :: "u64 \<Rightarrow> bool" where
  "not_pow2 algn \<longleftrightarrow> algn = 0 \<or> algn AND (algn - 1) \<noteq> 0"

definition arena_block_create :: "libc \<Rightarrow> u64 \<Rightarrow> u64 \<Rightarrow> ArenaBlock option" where
  "arena_block_create env cap algn =
     (let algn1 = (if not_pow2 algn then ARENA_DEFAULT_ALIGNMENT else algn);
          algn2 = (if algn1 > ARENA_MAX_ALIGNMENT then ARENA_MAX_ALIGNMENT else algn1)
      in case posix_memalign env algn2 cap of
           None \<Rightarrow> None
         | Some mem \<Rightarrow>
             if \<not> malloc_block env then None
             else Some \<lparr>buffer = mem, capacity = cap, used = 0\<rparr>)"

subsection \<open>Arena API\<close>

definition arena_create_with_alignment :: "libc \<Rightarrow> u64 \<Rightarrow> u64 \<Rightarrow> Arena" where
  "arena_create_with_alignment env cap algn =
     (case arena_block_create env (if cap > 0 then cap else 1024) algn of
        None \<Rightarrow> \<lparr>head = [], alignment = 0, max_align = 0\<rparr>
      | Some block \<Rightarrow>
          \<lparr>head = [block], alignment = algn, max_align = ARENA_MAX_ALIGNMENT\<rparr>)"

definition arena_create :: "libc \<Rightarrow> u64 \<Rightarrow> Arena" where
  "arena_create env cap = arena_create_with_alignment env cap ARENA_DEFAULT_ALIGNMENT"

text \<open>
  A pointer \<open>Arena *arena\<close> is \<open>None\<close> when null and \<open>Some a\<close> when it points
  to an arena whose fields are \<open>a\<close>; a function that writes through the pointer
  returns the fields after the call.
\<close>

definition arena_destroy :: "Arena option \<Rightarrow> Arena option" where
  "arena_destroy ap =
     (case ap of None \<Rightarrow> None | Some a \<Rightarrow> Some (a\<lparr>head := []\<rparr>))"

fun reset_blocks :: "ArenaBlock list \<Rightarrow> ArenaBlock list" where
  "reset_blocks [] = []"
| "reset_blocks (b # bs) = b\<lparr>used := 0\<rparr> # reset_blocks bs"

definition arena_reset :: "Arena option \<Rightarrow> Arena option" where
  "arena_reset ap =
     (case ap of None \<Rightarrow> None | Some a \<Rightarrow> Some (a\<lparr>head := reset_blocks (head a)\<rparr>))"

fun sum_used :: "u64 \<Rightarrow> ArenaBlock list \<Rightarrow> u64" where
  "sum_used tot [] = tot"
| "sum_used tot (b # bs) = sum_used (tot + used b) bs"

definition arena_used :: "Arena option \<Rightarrow> u64" where
  "arena_used ap = (case ap of None \<Rightarrow> 0 | Some a \<Rightarrow> sum_used 0 (head a))"

definition arena_remaining :: "Arena option \<Rightarrow> u64" where
  "arena_remaining ap =
     (case ap of
        None \<Rightarrow> 0
      | Some a \<Rightarrow> (case head a of [] \<Rightarrow> 0 | b # bs \<Rightarrow> capacity b - used b))"

text \<open>
  The alignment an allocation works with: the requested one, replaced by the
  arena's own when it is zero or not a power of two, then capped at
  \<open>max_align\<close>.
\<close>

definition effective_alignment :: "Arena \<Rightarrow> u64 \<Rightarrow> u64" where
  "effective_alignment a algn =
     (let algn1 = (if not_pow2 algn then alignment a else algn)
      in if algn1 > max_align a then max_align a else algn1)"

text \<open>The capacity of the block that the growth path asks for.\<close>

definition new_capacity :: "ArenaBlock \<Rightarrow> u64 \<Rightarrow> u64" where
  "new_capacity block sz =
     (let c = capacity block * 2 in if c < sz then sz * 2 else c)"

definition arena_alloc_aligned ::
  "libc \<Rightarrow> Arena option \<Rightarrow> u64 \<Rightarrow> u64 \<Rightarrow> u64 \<times> Arena option" where
  "arena_alloc_aligned env ap sz algn =
     (case ap of
        None \<Rightarrow> (NULL, None)
      | Some a \<Rightarrow>
          if sz = 0 then (NULL, Some a)
          else (case head a of
             [] \<Rightarrow> (NULL, Some a)
           | block # rest \<Rightarrow>
               let algn' = effective_alignment a algn;
                   current_ptr = buffer block + used block;
                   aligned_ptr = align_forward current_ptr algn';
                   padding = aligned_ptr - current_ptr
               in if used block + padding + sz \<le> capacity block
                  then (aligned_ptr,
                        Some (a\<lparr>head := block\<lparr>used := used block + (padding + sz)\<rparr> # rest\<rparr>))
                  else (case arena_block_create env (new_capacity block sz) (alignment a) of
                     None \<Rightarrow> (NULL, Some a)
                   | Some new_block \<Rightarrow>
                       (align_forward (buffer new_block) algn',
                        Some (a\<lparr>head := new_block\<lparr>used := sz\<rparr> # block # rest\<rparr>)))))"

definition arena_alloc :: "libc \<Rightarrow> Arena option \<Rightarrow> u64 \<Rightarrow> u64 \<times> Arena option" where
  "arena_alloc env ap sz =
     arena_alloc_aligned env ap sz
       (case ap of None \<Rightarrow> ARENA_DEFAULT_ALIGNMENT | Some a \<Rightarrow> alignment a)"

text \<open>
  The \<open>n\<close> bytes at \<open>p\<close> lie in the buffer of a block, and in the buffer of the
  head block of an arena: the block a pointer just returned was handed out
  from.  The sums are sums of natural numbers: memory does not wrap around.
\<close>

definition in_block :: "ArenaBlock \<Rightarrow> u64 \<Rightarrow> u64 \<Rightarrow> bool" where
  "in_block b p n \<longleftrightarrow>
     unat (buffer b) \<le> unat p \<and> unat p + unat n \<le> unat (buffer b) + unat (capacity b)"

definition writable :: "Arena option \<Rightarrow> u64 \<Rightarrow> u64 \<Rightarrow> bool" where
  "writable ap p n =
     (case ap of
        None \<Rightarrow> False
      | Some a \<Rightarrow> (case head a of [] \<Rightarrow> False | b # bs \<Rightarrow> in_block b p n))"

text \<open>The \<open>n\<close> bytes at \<open>p\<close> and the \<open>n\<close> bytes at \<open>q\<close> do not overlap.\<close>

definition ranges_disjoint :: "u64 \<Rightarrow> u64 \<Rightarrow> u64 \<Rightarrow> bool" where
  "ranges_disjoint p q n \<longleftrightarrow>
     n = 0 \<or> unat p + unat n \<le> unat q \<or> unat q + unat n \<le> unat p"

text \<open>
  \<open>memset(ptr, 0, size)\<close> after a successful \<open>arena_alloc\<close>: defined when the
  range returned lies in the buffer of the head block.
\<close>

definition arena_alloc_zeroed ::
  "libc \<Rightarrow> Arena option \<Rightarrow> u64 \<Rightarrow> (u64 \<times> Arena option) option" where
  "arena_alloc_zeroed env ap sz =
     (let r = arena_alloc env ap sz; ptr = fst r
      in if ptr \<noteq> NULL
         then (if writable (snd r) ptr sz then Some r else None)
         else Some r)"

definition arena_calloc ::
  "libc \<Rightarrow> Arena option \<Rightarrow> u64 \<Rightarrow> u64 \<Rightarrow> (u64 \<times> Arena option) option" where
  "arena_calloc env ap cnt sz = (let tot = cnt * sz in arena_alloc_zeroed env ap tot)"

text \<open>
  \<open>arena_realloc\<close> reads \<open>arena->head->buffer\<close> without a check of \<open>head\<close>: on
  an arena with no block this is a null dereference.  When it cannot resize in
  place it allocates and copies \<open>min old_size new_size\<close> bytes with \<open>memcpy\<close>
  from the pointer of the caller to the new range.
\<close>

definition arena_realloc ::
  "libc \<Rightarrow> Arena option \<Rightarrow> u64 \<Rightarrow> u64 \<Rightarrow> u64 \<Rightarrow> (u64 \<times> Arena option) option" where
  "arena_realloc env ap ptr old_size new_size =
     (case ap of
        None \<Rightarrow> Some (NULL, None)
      | Some a \<Rightarrow>
          if ptr = NULL \<or> new_size = 0 then Some (NULL, Some a)
          else (case head a of
             [] \<Rightarrow> None
           | block # rest \<Rightarrow>
               let last_byte = buffer block + used block;
                   ptr_end = ptr + old_size;
                   new_end = (ptr - buffer block) + new_size
               in if ptr_end = last_byte \<and> new_end \<le> capacity block
                  then Some (ptr, Some (a\<lparr>head := block\<lparr>used := new_end\<rparr> # rest\<rparr>))
                  else
                    let r = arena_alloc env (Some a) new_size; new_ptr = fst r;
                        copy_size = (if old_size < new_size then old_size else new_size)
                    in if new_ptr \<noteq> NULL
                       then (if writable (snd r) new_ptr copy_size \<and>
                                readable env ptr copy_size \<and>
                                ranges_disjoint new_ptr ptr copy_size
                             then Some r else None)
                       else Some r))"

text \<open>
  A C string argument is \<open>None\<close> when the pointer is null and otherwise the
  characters before the terminator; \<open>strlen\<close> is their number.  The string is
  given by its value, so it is readable and apart from the range handed out;
  the \<open>memcpy\<close> into that range (and the terminator \<open>strndup\<close> writes behind
  it) is defined when the range lies in the buffer of the head block.
\<close>

definition strlen :: "string \<Rightarrow> u64" where
  "strlen s = of_nat (length s)"

definition arena_strdup ::
  "libc \<Rightarrow> Arena option \<Rightarrow> string option \<Rightarrow> (u64 \<times> Arena option) option" where
  "arena_strdup env ap str =
     (case str of
        None \<Rightarrow> Some (NULL, ap)
      | Some s \<Rightarrow>
          let len = strlen s + 1; r = arena_alloc env ap len; dup = fst r
          in if dup \<noteq> NULL
             then (if writable (snd r) dup len then Some r else None)
             else Some r)"

definition arena_strndup ::
  "libc \<Rightarrow> Arena option \<Rightarrow> string option \<Rightarrow> u64 \<Rightarrow> (u64 \<times> Arena option) option" where
  "arena_strndup env ap str n =
     (case str of
        None \<Rightarrow> Some (NULL, ap)
      | Some s \<Rightarrow>
          let len = strlen s; len' = (if len > n then n else len);
              r = arena_alloc env ap (len' + 1); dup = fst r
          in if dup \<noteq> NULL
             then (if writable (snd r) dup (len' + 1) then Some r else None)
             else Some r)"

subsection \<open>Temporary scope\<close>

text \<open>
  The token keeps the pointer to the arena and the head block's counter.  Of
  the pointer only "null or not" matters here (\<open>temp_arena\<close>);
  \<open>arena_temp_end\<close> takes the present fields of the arena the token points to.
\<close>

definition arena_temp_begin :: "Arena option \<Rightarrow> ArenaTemp" where
  "arena_temp_begin ap =
     \<lparr>temp_arena = (ap \<noteq> None),
      temp_used = (case ap of
                     None \<Rightarrow> 0
                   | Some a \<Rightarrow> (case head a of [] \<Rightarrow> 0 | b # bs \<Rightarrow> used b))\<rparr>"

definition arena_temp_end :: "ArenaTemp \<Rightarrow> Arena \<Rightarrow> Arena" where
  "arena_temp_end temp a =
     (if temp_arena temp
      then (case head a of
              [] \<Rightarrow> a
            | b # bs \<Rightarrow> a\<lparr>head := b\<lparr>used := temp_used temp\<rparr> # bs\<rparr>)
      else a)"

subsection \<open>Calls of the public API on one arena\<close>

text \<open>
  One call of the public API through a non-null pointer to an arena.  The
  functions that create an arena return a new one and are not calls on an
  existing arena.  \<open>api_step\<close> gives the arena after the call, and \<open>None\<close> when
  the call is not defined.
\<close>

datatype api_call =
    Alloc u64
  | AllocAligned u64 u64
  | AllocZeroed u64
  | Calloc u64 u64
  | Realloc u64 u64 u64
  | Strdup "string option"
  | Strndup "string option" u64
  | Reset
  | Destroy
  | Used
  | Remaining
  | TempBegin
  | TempEnd ArenaTemp

fun api_step :: "libc \<Rightarrow> api_call \<Rightarrow> Arena \<Rightarrow> Arena option" where
  "api_step env (Alloc sz) a = snd (arena_alloc env (Some a) sz)"
| "api_step env (AllocAligned sz algn) a = snd (arena_alloc_aligned env (Some a) sz algn)"
| "api_step env (AllocZeroed sz) a =
     (case arena_alloc_zeroed env (Some a) sz of None \<Rightarrow> None | Some r \<Rightarrow> snd r)"
| "api_step env (Calloc cnt sz) a =
     (case arena_calloc env (Some a) cnt sz of None \<Rightarrow> None | Some r \<Rightarrow> snd r)"
| "api_step env (Realloc ptr old_size new_size) a =
     (case arena_realloc env (Some a) ptr old_size new_size of
        None \<Rightarrow> None
      | Some r \<Rightarrow> snd r)"
| "api_step env (Strdup str) a =
     (case arena_strdup env (Some a) str of None \<Rightarrow> None | Some r \<Rightarrow> snd r)"
| "api_step env (Strndup str n) a =
     (case arena_strndup env (Some a) str n of None \<Rightarrow> None | Some r \<Rightarrow> snd r)"
| "api_step env Reset a = arena_reset (Some a)"
| "api_step env Destroy a = arena_destroy (Some a)"
| "api_step env Used a = Some a"
| "api_step env Remaining a = Some a"
| "api_step env TempBegin a = Some a"
| "api_step env (TempEnd temp) a = Some (arena_temp_end temp a)"



subsection \<open>Temporary scopes around sequences of calls\<close>

text \<open>
  What happens between a \<open>begin\<close> and its \<open>end\<close>: calls, each with the answers
  of the C library during it, and scopes opened and closed inside, which is
  the last-opened-first-closed discipline.  \<open>run_item (Scope items)\<close> is
  \<open>arena_temp_begin\<close>, the items, then \<open>arena_temp_end\<close> with the token of the
  begin.
\<close>

datatype scope_item = Call libc api_call | Scope "scope_item list"

fun run_item :: "scope_item \<Rightarrow> Arena \<Rightarrow> Arena option"
  and run_items :: "scope_item list \<Rightarrow> Arena \<Rightarrow> Arena option" where
  "run_item (Call env c) a = api_step env c a"
| "run_item (Scope items) a =
     (let temp = arena_temp_begin (Some a)
      in case run_items items a of
           None \<Rightarrow> None
         | Some a' \<Rightarrow> Some (arena_temp_end temp a'))"
| "run_items [] a = Some a"
| "run_items (i # items) a =
     (case run_item i a of None \<Rightarrow> None | Some a' \<Rightarrow> run_items items a')"



subsection \<open>Properties of states and of calls\<close>

text \<open>Every block of the chain has \<open>used \<le> capacity\<close>.\<close>

definition blocks_ok :: "Arena \<Rightarrow> bool" where
  "blocks_ok a = list_all (\<lambda>b. used b \<le> capacity b) (head a)"

text \<open>
  No block's counter is smaller after than before: the blocks of the two
  chains are matched from the oldest one, so that a block pushed in front by
  the growth path, or the blocks released by \<open>arena_destroy\<close>, have no partner.
\<close>

definition used_nondecreasing :: "Arena \<Rightarrow> Arena \<Rightarrow> bool" where
  "used_nondecreasing a a' =
     list_all (\<lambda>(b, b'). used b \<le> used b') (zip (rev (head a)) (rev (head a')))"

text \<open>
  The padding \<open>arena_alloc_aligned\<close> computes for the head block, and the sum
  \<open>used + padding + size\<close> it compares with the capacity, as a natural number:
  the sum fits 64 bits when it is below \<open>2 ^ 64\<close>.
\<close>

definition padding_of :: "Arena \<Rightarrow> ArenaBlock \<Rightarrow> u64 \<Rightarrow> u64" where
  "padding_of a block algn =
     (let current_ptr = buffer block + used block
      in align_forward current_ptr (effective_alignment a algn) - current_ptr)"

definition bump_sum :: "Arena \<Rightarrow> u64 \<Rightarrow> u64 \<Rightarrow> nat" where
  "bump_sum a sz algn =
     (case head a of
        [] \<Rightarrow> 0
      | block # rest \<Rightarrow> unat (used block) + unat (padding_of a block algn) + unat sz)"

text \<open>
  The size and alignment with which a call reaches \<open>arena_alloc_aligned\<close>, if
  it can reach it.
\<close>

fun request :: "Arena \<Rightarrow> api_call \<Rightarrow> (u64 \<times> u64) option" where
  "request a (Alloc sz) = Some (sz, alignment a)"
| "request a (AllocAligned sz algn) = Some (sz, algn)"
| "request a (AllocZeroed sz) = Some (sz, alignment a)"
| "request a (Calloc cnt sz) = Some (cnt * sz, alignment a)"
| "request a (Realloc ptr old_size new_size) = Some (new_size, alignment a)"
| "request a (Strdup (Some s)) = Some (strlen s + 1, alignment a)"
| "request a (Strndup (Some s) n) =
     Some ((if strlen s > n then n else strlen s) + 1, alignment a)"
| "request a c = None"

text \<open>The 64-bit sum of the bump test does not wrap around for this call.\<close>

definition fits_64 :: "Arena \<Rightarrow> api_call \<Rightarrow> bool" where
  "fits_64 a c =
     (case request a c of
        None \<Rightarrow> True
      | Some (sz, algn) \<Rightarrow> bump_sum a sz algn < 2 ^ 64)"

text \<open>The two doublings of the growth path do not wrap around for this call.\<close>

definition growth_fits :: "Arena \<Rightarrow> api_call \<Rightarrow> bool" where
  "growth_fits a c =
     (case request a c of
        None \<Rightarrow> True
      | Some (sz, algn) \<Rightarrow>
          (case head a of
             [] \<Rightarrow> True
           | block # rest \<Rightarrow> 2 * unat (capacity block) < 2 ^ 64 \<and> 2 * unat sz < 2 ^ 64))"

text \<open>The counter kept in the token of a \<open>TempEnd\<close> is within the head block.\<close>

definition token_fits :: "Arena \<Rightarrow> api_call \<Rightarrow> bool" where
  "token_fits a c =
     (case c of
        TempEnd temp \<Rightarrow>
          (case head a of [] \<Rightarrow> True | block # rest \<Rightarrow> temp_used temp \<le> capacity block)
      | _ \<Rightarrow> True)"

text \<open>
  The calls that can set a counter to a smaller value by design: \<open>reset\<close>, the
  end of a temporary scope, and a reallocation to a smaller size, which moves
  \<open>used\<close> back when it is done in place.
\<close>

fun may_lower_used :: "api_call \<Rightarrow> bool" where
  "may_lower_used Reset = True"
| "may_lower_used (TempEnd temp) = True"
| "may_lower_used (Realloc ptr old_size new_size) = (new_size < old_size)"
| "may_lower_used c = False"


definition is_pow2 :: "u64 \<Rightarrow> bool" where
  "is_pow2 algn \<longleftrightarrow> \<not> not_pow2 algn"

subsection \<open>Environments of the examples\<close>

text \<open>
  An environment in which every reservation succeeds, at the address \<open>mem\<close>,
  and every pointer of the caller is readable.
\<close>

definition libc_at :: "u64 \<Rightarrow> libc" where
  "libc_at mem =
     \<lparr>posix_memalign = (\<lambda>al n. Some mem), malloc_block = True, readable = (\<lambda>p n. True)\<rparr>"

section \<open>The single-buffer version of components/arena.c\<close>

text \<open>
  The file holds a second, older text of the allocator, in which the arena is
  one buffer that never grows.  Its creation, allocation, array allocation and
  reallocation are modelled here, with the suffix \<open>_v1\<close>, to compare the two
  versions where they differ or agree on a point examined below.
\<close>

record Arena_v1 =
  v1_buffer :: u64
  v1_capacity :: u64
  v1_used :: u64
  v1_commit :: u64
  v1_alignment :: u64
  v1_max_align :: u64

definition arena_create_with_alignment_v1 :: "libc \<Rightarrow> u64 \<Rightarrow> u64 \<Rightarrow> Arena_v1" where
  "arena_create_with_alignment_v1 env cap algn =
     (let algn1 = (if not_pow2 algn then ARENA_DEFAULT_ALIGNMENT else algn);
          algn2 = (if algn1 > ARENA_MAX_ALIGNMENT then ARENA_MAX_ALIGNMENT else algn1)
      in case posix_memalign env algn2 cap of
           None \<Rightarrow>
             \<lparr>v1_buffer = 0, v1_capacity = 0, v1_used = 0, v1_commit = 0,
              v1_alignment = 0, v1_max_align = 0\<rparr>
         | Some mem \<Rightarrow>
             \<lparr>v1_buffer = mem, v1_capacity = cap, v1_used = 0, v1_commit = cap,
              v1_alignment = algn2, v1_max_align = ARENA_MAX_ALIGNMENT\<rparr>)"

definition arena_create_v1 :: "libc \<Rightarrow> u64 \<Rightarrow> Arena_v1" where
  "arena_create_v1 env cap = arena_create_with_alignment_v1 env cap ARENA_DEFAULT_ALIGNMENT"

definition effective_alignment_v1 :: "Arena_v1 \<Rightarrow> u64 \<Rightarrow> u64" where
  "effective_alignment_v1 a algn =
     (let algn1 = (if not_pow2 algn then v1_alignment a else algn)
      in if algn1 > v1_max_align a then v1_max_align a else algn1)"

definition arena_alloc_aligned_v1 ::
  "Arena_v1 option \<Rightarrow> u64 \<Rightarrow> u64 \<Rightarrow> u64 \<times> Arena_v1 option" where
  "arena_alloc_aligned_v1 ap sz algn =
     (case ap of
        None \<Rightarrow> (NULL, None)
      | Some a \<Rightarrow>
          if sz = 0 then (NULL, Some a)
          else
            let algn' = effective_alignment_v1 a algn;
                current_ptr = v1_buffer a + v1_used a;
                aligned_ptr = align_forward current_ptr algn';
                alignment_padding = aligned_ptr - current_ptr
            in if v1_used a + alignment_padding + sz > v1_capacity a
               then (NULL, Some a)
               else (aligned_ptr,
                     Some (a\<lparr>v1_used := v1_used a + (alignment_padding + sz)\<rparr>)))"

definition arena_alloc_v1 :: "Arena_v1 option \<Rightarrow> u64 \<Rightarrow> u64 \<times> Arena_v1 option" where
  "arena_alloc_v1 ap sz =
     arena_alloc_aligned_v1 ap sz
       (case ap of None \<Rightarrow> ARENA_DEFAULT_ALIGNMENT | Some a \<Rightarrow> v1_alignment a)"

definition writable_v1 :: "Arena_v1 option \<Rightarrow> u64 \<Rightarrow> u64 \<Rightarrow> bool" where
  "writable_v1 ap p n =
     (case ap of
        None \<Rightarrow> False
      | Some a \<Rightarrow>
          unat (v1_buffer a) \<le> unat p \<and>
          unat p + unat n \<le> unat (v1_buffer a) + unat (v1_capacity a))"

definition arena_calloc_v1 ::
  "Arena_v1 option \<Rightarrow> u64 \<Rightarrow> u64 \<Rightarrow> (u64 \<times> Arena_v1 option) option" where
  "arena_calloc_v1 ap cnt sz =
     (let total_size = cnt * sz; r = arena_alloc_v1 ap total_size; ptr = fst r
      in if ptr \<noteq> NULL
         then (if writable_v1 (snd r) ptr total_size then Some r else None)
         else Some r)"

definition arena_realloc_v1 ::
  "libc \<Rightarrow> Arena_v1 option \<Rightarrow> u64 \<Rightarrow> u64 \<Rightarrow> u64 \<Rightarrow> (u64 \<times> Arena_v1 option) option" where
  "arena_realloc_v1 env ap ptr old_size new_size =
     (case ap of
        None \<Rightarrow> Some (NULL, None)
      | Some a \<Rightarrow>
          if ptr = NULL \<or> new_size = 0 then Some (NULL, Some a)
          else
            let last_byte = v1_buffer a + v1_used a;
                ptr_end = ptr + old_size;
                new_end = (ptr - v1_buffer a) + new_size
            in if ptr_end = last_byte \<and> new_end \<le> v1_capacity a
               then Some (ptr, Some (a\<lparr>v1_used := new_end\<rparr>))
               else
                 let r = arena_alloc_v1 (Some a) new_size; new_ptr = fst r;
                     copy_size = (if old_size < new_size then old_size else new_size)
                 in if new_ptr \<noteq> NULL
                    then (if writable_v1 (snd r) new_ptr copy_size \<and>
                             readable env ptr copy_size \<and>
                             ranges_disjoint new_ptr ptr copy_size
                          then Some r else None)
                    else Some r)"

section \<open>Unfolding the definitions\<close>

lemmas create_defs =
  arena_create_def arena_create_with_alignment_def arena_block_create_def
  not_pow2_def ARENA_DEFAULT_ALIGNMENT_def ARENA_MAX_ALIGNMENT_def

lemmas alloc_defs =
  arena_alloc_def arena_alloc_aligned_def effective_alignment_def align_forward_def
  new_capacity_def NULL_def

lemmas memory_defs =
  in_block_def writable_def ranges_disjoint_def arena_alloc_zeroed_def arena_calloc_def

lemmas example_defs = create_defs alloc_defs memory_defs libc_at_def

lemmas v1_defs =
  arena_create_v1_def arena_create_with_alignment_v1_def arena_alloc_v1_def
  arena_alloc_aligned_v1_def effective_alignment_v1_def arena_calloc_v1_def
  arena_realloc_v1_def writable_v1_def

section \<open>64-bit arithmetic without wrap-around\<close>

lemma bump_no_wrap:
  fixes u p s :: u64
  assumes "unat u + unat p + unat s < 2 ^ 64"
  shows "unat (u + p + s) = unat u + unat p + unat s"
proof -
  have "unat u + unat p < 2 ^ LENGTH(64)" using assms by simp
  then have 1: "unat (u + p) = unat u + unat p" by (simp only: unat_add_lem [THEN iffD1])
  have "unat (u + p) + unat s < 2 ^ LENGTH(64)" using assms 1 by simp
  then have "unat (u + p + s) = unat (u + p) + unat s" by (simp only: unat_add_lem [THEN iffD1])
  with 1 show ?thesis by simp
qed

lemma add_no_wrap_le:
  fixes u d :: u64
  assumes "unat u + unat d < 2 ^ 64"
  shows "u \<le> u + d"
proof -
  have "unat u + unat d < 2 ^ LENGTH(64)" using assms by simp
  then have "unat (u + d) = unat u + unat d" by (simp only: unat_add_lem [THEN iffD1])
  then show ?thesis by (simp add: word_le_nat_alt)
qed

lemma double_no_wrap:
  fixes c :: u64
  assumes "2 * unat c < 2 ^ 64"
  shows "unat (c * 2) = 2 * unat c"
proof -
  have "unat c * unat (2 :: u64) < 2 ^ LENGTH(64)" using assms by simp
  then have "unat (c * 2) = unat c * unat (2 :: u64)" by (simp only: unat_mult_lem [THEN iffD1])
  then show ?thesis by simp
qed

section \<open>Powers of two and \<open>align_forward\<close>\<close>

text \<open>
  The test \<open>x \<noteq> 0\<close> and \<open>x & (x - 1) = 0\<close> holds of the powers of two only:
  first on the natural numbers, by induction on the halves, then on words.
\<close>

lemma nat_pow2:
  fixes n :: nat
  shows "n \<noteq> 0 \<Longrightarrow> n AND (n - 1) = 0 \<Longrightarrow> \<exists>k. n = 2 ^ k"
proof (induction n rule: less_induct)
  case (less n)
  show ?case
  proof (cases "even n")
    case True
    then obtain m where m: "n = 2 * m" by (auto elim: evenE)
    with less.prems have m0: "m \<noteq> 0" by simp
    have "n - 1 = 2 * (m - 1) + 1" using m m0 by simp
    then have "n AND (n - 1) = 2 * (m AND (m - 1))"
      using m by (subst and_rec) simp
    with less.prems have "m AND (m - 1) = 0" by simp
    moreover have "m < n" using m m0 by simp
    ultimately obtain k where "m = 2 ^ k" using less.IH m0 by blast
    then have "n = 2 ^ Suc k" using m by simp
    then show ?thesis by blast
  next
    case False
    then obtain m where m: "n = 2 * m + 1" by (auto elim: oddE)
    then have "n AND (n - 1) = 2 * m"
      by (subst and_rec) simp
    with less.prems have "m = 0" by simp
    with m have "n = 2 ^ 0" by simp
    then show ?thesis by blast
  qed
qed

lemma is_pow2_exp:
  assumes "is_pow2 al"
  shows "\<exists>k<64. al = 2 ^ k"
proof -
  from assms have nz: "al \<noteq> 0" and z: "al AND (al - 1) = 0"
    by (simp_all add: is_pow2_def not_pow2_def)
  from nz have unz: "unat al \<noteq> 0" by (simp add: unat_eq_zero)
  have "unat (al AND (al - 1)) = unat al AND (unat al - 1)"
    using nz by (simp add: unsigned_and_eq unat_minus_one)
  with z have "unat al AND (unat al - 1) = 0" by simp
  with unz obtain k where k: "unat al = 2 ^ k" using nat_pow2 by blast
  have "unat al < 2 ^ LENGTH(64)" by (rule unsigned_less)
  with k have "(2::nat) ^ k < 2 ^ 64" by simp
  then have k64: "k < 64" by (rule power_less_imp_less_exp [rotated]) simp
  have "al = of_nat (unat al)" by simp
  also have "\<dots> = 2 ^ k" by (simp only: k) simp
  finally show ?thesis using k64 by blast
qed

lemma align_forward_multiple:
  assumes "is_pow2 al"
  shows "unat al dvd unat (align_forward p al)"
proof -
  from assms obtain k where k: "k < 64" and al: "al = 2 ^ k" using is_pow2_exp by blast
  have m: "al - 1 = mask k" by (simp add: al mask_eq_decr_exp)
  have "take_bit k (align_forward p al) = 0"
    by (simp add: align_forward_def m take_bit_not_mask_eq_0 flip: bit.conj_disj_distrib)
  then have "take_bit k (unat (align_forward p al)) = 0"
    by (simp flip: unsigned_take_bit_eq)
  then have "2 ^ k dvd unat (align_forward p al)"
    by (simp add: take_bit_eq_0_iff)
  moreover have "unat al = 2 ^ k"
  proof -
    have "(2::nat) ^ k < 2 ^ LENGTH(64)"
      using power_strict_increasing [OF k, of "2::nat"] by simp
    then have "unat (of_nat (2 ^ k) :: u64) = 2 ^ k" by (rule of_nat_inverse [OF refl])
    then show ?thesis by (simp add: al)
  qed
  ultimately show ?thesis by simp
qed

section \<open>The paths through \<open>arena_alloc_aligned\<close> and through a call\<close>

text \<open>
  A call of \<open>arena_alloc_aligned\<close> on an arena leaves it unchanged and returns
  null (size zero, no head, or no block to be had), or bumps the head block, or
  pushes a new block.
\<close>

lemma alloc_aligned_cases [consumes 1, case_names unchanged bump grow]:
  assumes "arena_alloc_aligned env (Some a) sz algn = (p, ap')"
  obtains "p = NULL" and "ap' = Some a"
  | block rest where "head a = block # rest" and "sz \<noteq> 0"
      and "used block + padding_of a block algn + sz \<le> capacity block"
      and "p = align_forward (buffer block + used block) (effective_alignment a algn)"
      and "ap' = Some (a\<lparr>head := block\<lparr>used := used block + (padding_of a block algn + sz)\<rparr> # rest\<rparr>)"
  | block rest new_block where "head a = block # rest" and "sz \<noteq> 0"
      and "\<not> used block + padding_of a block algn + sz \<le> capacity block"
      and "arena_block_create env (new_capacity block sz) (alignment a) = Some new_block"
      and "p = align_forward (buffer new_block) (effective_alignment a algn)"
      and "ap' = Some (a\<lparr>head := new_block\<lparr>used := sz\<rparr> # block # rest\<rparr>)"
proof (cases "sz = 0 \<or> head a = []")
  case True
  with assms have "p = NULL" "ap' = Some a"
    by (auto simp: arena_alloc_aligned_def split: list.splits)
  then show ?thesis by (rule that(1))
next
  case False
  then obtain block rest where hd: "head a = block # rest" and sz: "sz \<noteq> 0"
    by (cases "head a") auto
  define pad where "pad = padding_of a block algn"
  have unf: "arena_alloc_aligned env (Some a) sz algn =
     (if used block + pad + sz \<le> capacity block
      then (align_forward (buffer block + used block) (effective_alignment a algn),
            Some (a\<lparr>head := block\<lparr>used := used block + (pad + sz)\<rparr> # rest\<rparr>))
      else (case arena_block_create env (new_capacity block sz) (alignment a) of
              None \<Rightarrow> (NULL, Some a)
            | Some new_block \<Rightarrow>
                (align_forward (buffer new_block) (effective_alignment a algn),
                 Some (a\<lparr>head := new_block\<lparr>used := sz\<rparr> # block # rest\<rparr>))))"
    unfolding arena_alloc_aligned_def pad_def padding_of_def Let_def
    using hd sz by (simp only: option.case list.case if_False)
  show ?thesis
  proof (cases "used block + pad + sz \<le> capacity block")
    case True
    with unf assms show ?thesis
      using that(2) [OF hd sz] unfolding pad_def by simp
  next
    case nofit: False
    show ?thesis
    proof (cases "arena_block_create env (new_capacity block sz) (alignment a)")
      case None
      with unf assms nofit show ?thesis using that(1) by simp
    next
      case (Some new_block)
      with unf assms nofit show ?thesis
        using that(3) [OF hd sz _ Some] unfolding pad_def by simp
    qed
  qed
qed


lemma pair_of_snd: "snd r = y \<Longrightarrow> r = (fst r, y)"
  by auto

text \<open>
  Where a call with a \<open>memset\<close> or a \<open>memcpy\<close> is defined, it returns what the
  allocation inside it returns.
\<close>

lemma alloc_zeroed_Some:
  "arena_alloc_zeroed env ap sz = Some r \<Longrightarrow> r = arena_alloc env ap sz"
  by (simp add: arena_alloc_zeroed_def Let_def split: if_splits)

lemma calloc_Some:
  "arena_calloc env ap cnt sz = Some r \<Longrightarrow> r = arena_alloc env ap (cnt * sz)"
  by (simp add: arena_calloc_def alloc_zeroed_Some)

lemma strdup_Some:
  "arena_strdup env ap (Some s) = Some r \<Longrightarrow> r = arena_alloc env ap (strlen s + 1)"
  by (simp add: arena_strdup_def Let_def split: if_splits)

lemma strndup_Some:
  "arena_strndup env ap (Some s) n = Some r \<Longrightarrow>
   r = arena_alloc env ap ((if strlen s > n then n else strlen s) + 1)"
  by (simp add: arena_strndup_def Let_def split: if_splits)

lemma realloc_Some:
  assumes "arena_realloc env (Some a) ptr old_size new_size = Some r"
    and "ptr \<noteq> NULL" and "new_size \<noteq> 0"
  obtains block rest where "head a = block # rest"
      and "ptr + old_size = buffer block + used block"
      and "ptr - buffer block + new_size \<le> capacity block"
      and "r = (ptr, Some (a\<lparr>head := block\<lparr>used := ptr - buffer block + new_size\<rparr> # rest\<rparr>))"
  | "r = arena_alloc env (Some a) new_size"
proof (cases "head a")
  case Nil
  with assms show ?thesis by (simp add: arena_realloc_def)
next
  case (Cons block rest)
  show ?thesis
  proof (cases "ptr + old_size = buffer block + used block \<and>
                ptr - buffer block + new_size \<le> capacity block")
    case True
    with assms Cons
    have "r = (ptr, Some (a\<lparr>head := block\<lparr>used := ptr - buffer block + new_size\<rparr> # rest\<rparr>))"
      by (auto simp: arena_realloc_def Let_def)
    with True Cons show ?thesis using that(1) by blast
  next
    case False
    with assms Cons have "r = arena_alloc env (Some a) new_size"
      by (auto simp: arena_realloc_def Let_def split: if_splits)
    then show ?thesis by (rule that(2))
  qed
qed

lemma api_step_cases [consumes 1, case_names same request inplace reset destroy temp_end]:
  assumes "api_step env c a = Some a'"
  obtains "a' = a"
  | sz algn p where "request a c = Some (sz, algn)"
      and "arena_alloc_aligned env (Some a) sz algn = (p, Some a')"
  | ptr old_size new_size block rest where "c = Realloc ptr old_size new_size"
      and "head a = block # rest"
      and "ptr + old_size = buffer block + used block"
      and "ptr - buffer block + new_size \<le> capacity block"
      and "a' = a\<lparr>head := block\<lparr>used := ptr - buffer block + new_size\<rparr> # rest\<rparr>"
  | "c = Reset" and "a' = a\<lparr>head := reset_blocks (head a)\<rparr>"
  | "c = Destroy" and "a' = a\<lparr>head := []\<rparr>"
  | temp where "c = TempEnd temp" and "a' = arena_temp_end temp a"
proof (cases c)
  case (Alloc sz)
  with assms have "arena_alloc_aligned env (Some a) sz (alignment a) =
      (fst (arena_alloc_aligned env (Some a) sz (alignment a)), Some a')"
    by (simp add: arena_alloc_def pair_of_snd)
  with Alloc show ?thesis using that(2) by simp
next
  case (AllocAligned sz algn)
  with assms have "arena_alloc_aligned env (Some a) sz algn =
      (fst (arena_alloc_aligned env (Some a) sz algn), Some a')"
    by (simp add: pair_of_snd)
  with AllocAligned show ?thesis using that(2) by simp
next
  case (AllocZeroed sz)
  with assms obtain r where "arena_alloc_zeroed env (Some a) sz = Some r" and "snd r = Some a'"
    by (auto split: option.splits)
  then have "snd (arena_alloc_aligned env (Some a) sz (alignment a)) = Some a'"
    by (auto dest: alloc_zeroed_Some simp: arena_alloc_def)
  then have "arena_alloc_aligned env (Some a) sz (alignment a) =
      (fst (arena_alloc_aligned env (Some a) sz (alignment a)), Some a')"
    by (rule pair_of_snd)
  with AllocZeroed show ?thesis using that(2) by simp
next
  case (Calloc cnt sz)
  with assms obtain r where "arena_calloc env (Some a) cnt sz = Some r" and "snd r = Some a'"
    by (auto split: option.splits)
  then have "snd (arena_alloc_aligned env (Some a) (cnt * sz) (alignment a)) = Some a'"
    by (auto dest: calloc_Some simp: arena_alloc_def)
  then have "arena_alloc_aligned env (Some a) (cnt * sz) (alignment a) =
      (fst (arena_alloc_aligned env (Some a) (cnt * sz) (alignment a)), Some a')"
    by (rule pair_of_snd)
  with Calloc show ?thesis using that(2) by simp
next
  case (Realloc ptr old_size new_size)
  with assms obtain r where r: "arena_realloc env (Some a) ptr old_size new_size = Some r"
    and sr: "snd r = Some a'"
    by (auto split: option.splits)
  show ?thesis
  proof (cases "ptr = NULL \<or> new_size = 0")
    case True
    with r sr have "a' = a" by (auto simp: arena_realloc_def)
    then show ?thesis by (rule that(1))
  next
    case False
    then have "ptr \<noteq> NULL" and "new_size \<noteq> 0" by simp_all
    with r show ?thesis
    proof (cases rule: realloc_Some)
      case (1 block rest)
      with sr Realloc show ?thesis using that(3) by simp
    next
      case 2
      with sr have "snd (arena_alloc_aligned env (Some a) new_size (alignment a)) = Some a'"
        by (simp add: arena_alloc_def)
      then have "arena_alloc_aligned env (Some a) new_size (alignment a) =
          (fst (arena_alloc_aligned env (Some a) new_size (alignment a)), Some a')"
        by (rule pair_of_snd)
      with Realloc show ?thesis using that(2) by simp
    qed
  qed
next
  case (Strdup str)
  with assms obtain r where r: "arena_strdup env (Some a) str = Some r" and sr: "snd r = Some a'"
    by (auto split: option.splits)
  show ?thesis
  proof (cases str)
    case None
    with r sr have "a' = a" by (auto simp: arena_strdup_def)
    then show ?thesis by (rule that(1))
  next
    case (Some s)
    with r sr have "snd (arena_alloc_aligned env (Some a) (strlen s + 1) (alignment a)) = Some a'"
      by (auto dest: strdup_Some simp: arena_alloc_def)
    then have "arena_alloc_aligned env (Some a) (strlen s + 1) (alignment a) =
      (fst (arena_alloc_aligned env (Some a) (strlen s + 1) (alignment a)), Some a')"
      by (rule pair_of_snd)
    with Strdup Some show ?thesis using that(2) by simp
  qed
next
  case (Strndup str n)
  with assms obtain r where r: "arena_strndup env (Some a) str n = Some r"
    and sr: "snd r = Some a'"
    by (auto split: option.splits)
  show ?thesis
  proof (cases str)
    case None
    with r sr have "a' = a" by (auto simp: arena_strndup_def)
    then show ?thesis by (rule that(1))
  next
    case (Some s)
    define len where "len = (if strlen s > n then n else strlen s) + 1"
    from Some r sr have "snd (arena_alloc_aligned env (Some a) len (alignment a)) = Some a'"
      by (auto dest: strndup_Some simp: arena_alloc_def len_def)
    then have "arena_alloc_aligned env (Some a) len (alignment a) =
      (fst (arena_alloc_aligned env (Some a) len (alignment a)), Some a')"
      by (rule pair_of_snd)
    with Strndup Some show ?thesis using that(2) by (simp add: len_def)
  qed
next
  case Reset
  with assms show ?thesis using that(4) by (simp add: arena_reset_def)
next
  case Destroy
  with assms show ?thesis using that(5) by (simp add: arena_destroy_def)
next
  case Used
  with assms show ?thesis using that(1) by simp
next
  case Remaining
  with assms show ?thesis using that(1) by simp
next
  case TempBegin
  with assms show ?thesis using that(1) by simp
next
  case (TempEnd temp)
  with assms show ?thesis using that(6) by simp
qed


section \<open>Array allocation and the product of count and size\<close>

text \<open>
  \<open>arena_calloc\<close> multiplies in 64 bits and passes the product on, whatever
  it is: there is no test of the multiplication, in either version.
\<close>

lemma arena_calloc_wraps:
  "arena_calloc env ap cnt sz = arena_alloc_zeroed env ap (cnt * sz)"
  by (simp add: arena_calloc_def)

lemma arena_calloc_v1_wraps:
  "arena_calloc_v1 ap cnt sz = Some r \<Longrightarrow> r = arena_alloc_v1 ap (cnt * sz)"
  by (simp add: arena_calloc_v1_def Let_def split: if_splits)

lemma calloc_v1_overflow_allocates:
  "arena_calloc_v1 (Some (arena_create_v1 (libc_at 0x1000) 1024)) 0x8000000000000001 2
     = Some (0x1000, Some \<lparr>v1_buffer = 0x1000, v1_capacity = 1024, v1_used = 2, v1_commit = 1024,
                      v1_alignment = 8, v1_max_align = 16\<rparr>)"
  by (simp add: v1_defs create_defs align_forward_def NULL_def libc_at_def Let_def)

text \<open>
  C1.  The claim: when \<open>count \<times> size\<close> overflows 64 bits, \<open>calloc\<close> returns no
  pointer and leaves the arena unchanged.  The code at \<open>count = 2^63 + 1\<close>,
  \<open>size = 2\<close> on a fresh arena of 1024 bytes: the product is \<open>2^64 + 2\<close>, the
  64-bit product is 2, and the call returns the start of the buffer and sets
  \<open>used\<close> to 2.
\<close>

theorem calloc_overflow_allocates:
  "2 ^ 64 \<le> unat (0x8000000000000001 :: u64) * unat (2 :: u64) \<and>
   arena_calloc (libc_at 0x1000) (Some (arena_create (libc_at 0x1000) 1024))
       0x8000000000000001 2
     = Some (0x1000, Some \<lparr>head = [\<lparr>buffer = 0x1000, capacity = 1024, used = 2\<rparr>],
                           alignment = 8, max_align = 16\<rparr>)"
  by (simp add: example_defs Let_def)

section \<open>Reallocation of the null pointer\<close>

lemma arena_realloc_null:
  "arena_realloc env (Some a) NULL old_size new_size = Some (NULL, Some a)"
  by (simp add: arena_realloc_def)

lemma arena_realloc_v1_null:
  "arena_realloc_v1 env (Some a) NULL old_size new_size = Some (NULL, Some a)"
  by (simp add: arena_realloc_v1_def)

text \<open>
  C3.  The claim: \<open>realloc(arena, NULL, old_size, new_size)\<close> with
  \<open>new_size > 0\<close> returns what \<open>alloc(arena, new_size)\<close> returns and leaves the
  arena in the same state.  The code on a fresh arena of 1024 bytes with
  \<open>new_size = 16\<close>: \<open>arena_realloc\<close> returns the null pointer and leaves
  \<open>used\<close> at 0, \<open>arena_alloc\<close> returns the start of the buffer and sets
  \<open>used\<close> to 16.
\<close>

theorem realloc_null_is_not_alloc:
  "arena_realloc (libc_at 0x1000) (Some (arena_create (libc_at 0x1000) 1024)) NULL 0 16
     = Some (NULL, Some \<lparr>head = [\<lparr>buffer = 0x1000, capacity = 1024, used = 0\<rparr>],
                        alignment = 8, max_align = 16\<rparr>) \<and>
   arena_alloc (libc_at 0x1000) (Some (arena_create (libc_at 0x1000) 1024)) 16
     = (0x1000, Some \<lparr>head = [\<lparr>buffer = 0x1000, capacity = 1024, used = 16\<rparr>],
                      alignment = 8, max_align = 16\<rparr>)"
  by (simp add: example_defs arena_realloc_def Let_def)

section \<open>Creation with capacity zero\<close>

lemma arena_create_zero_is_1024:
  "arena_create env 0 = arena_create env 1024"
  by (simp add: arena_create_def arena_create_with_alignment_def)

text \<open>
  The single-buffer version has no default capacity: it asks \<open>posix_memalign\<close>
  for 0 bytes and records the capacity 0.
\<close>

lemma arena_create_v1_zero:
  "posix_memalign env 8 0 = Some mem \<Longrightarrow> v1_capacity (arena_create_v1 env 0) = 0"
  by (simp add: v1_defs create_defs Let_def)

text \<open>
  C8.  \<open>create(0)\<close> reserves one block of the default capacity 1024, which is
  positive, and returns an arena whose head is that block (when the C library
  grants the two reservations a block needs).
\<close>

theorem create_zero_reserves_default_block:
  assumes "posix_memalign env 8 1024 = Some mem" and "malloc_block env"
  shows "arena_create env 0 =
           \<lparr>head = [\<lparr>buffer = mem, capacity = 1024, used = 0\<rparr>],
            alignment = 8, max_align = 16\<rparr> \<and>
         0 < capacity (hd (head (arena_create env 0)))"
  using assms by (simp add: create_defs Let_def)

theorem create_zero_reserves_default_block_witness:
  "posix_memalign (libc_at 0x1000) 8 1024 = Some 0x1000 \<and> malloc_block (libc_at 0x1000) \<and>
   arena_create (libc_at 0x1000) 0 =
     \<lparr>head = [\<lparr>buffer = 0x1000, capacity = 1024, used = 0\<rparr>],
      alignment = 8, max_align = 16\<rparr> \<and>
   0 < capacity (hd (head (arena_create (libc_at 0x1000) 0)))"
proof -
  have m: "posix_memalign (libc_at 0x1000) 8 1024 = Some 0x1000"
    by (simp add: libc_at_def)
  have b: "malloc_block (libc_at 0x1000)"
    by (simp add: libc_at_def)
  from create_zero_reserves_default_block [OF m b] m b show ?thesis
    by simp
qed

section \<open>After destroy\<close>

text \<open>
  After \<open>destroy\<close> the arena has no head; \<open>alloc\<close>, \<open>alloc_aligned\<close>,
  \<open>alloc_zeroed\<close> and \<open>calloc\<close> return the null pointer and change nothing,
  \<open>used\<close> and \<open>remaining\<close> are 0, and a second \<open>destroy\<close> changes nothing.  The
  string functions return null as well, \<open>reset\<close> and a scope change nothing.
\<close>

lemma destroyed_arena_listed_calls:
  "\<exists>d. arena_destroy (Some a) = Some d \<and> head d = [] \<and>
     arena_alloc env (Some d) sz = (NULL, Some d) \<and>
     arena_alloc_aligned env (Some d) sz algn = (NULL, Some d) \<and>
     arena_alloc_zeroed env (Some d) sz = Some (NULL, Some d) \<and>
     arena_calloc env (Some d) cnt sz = Some (NULL, Some d) \<and>
     arena_used (Some d) = 0 \<and>
     arena_remaining (Some d) = 0 \<and>
     arena_destroy (Some d) = Some d"
  by (simp add: arena_destroy_def arena_alloc_def arena_alloc_aligned_def
      arena_alloc_zeroed_def arena_calloc_def arena_used_def arena_remaining_def Let_def)

lemma headless_arena_other_calls:
  assumes "head d = []"
  shows "arena_strdup env (Some d) str = Some (NULL, Some d) \<and>
         arena_strndup env (Some d) str n = Some (NULL, Some d) \<and>
         arena_reset (Some d) = Some d \<and>
         arena_temp_end (arena_temp_begin (Some d)) d = d"
  using assms
  by (simp add: arena_strdup_def arena_strndup_def arena_alloc_def arena_alloc_aligned_def
      arena_reset_def arena_temp_end_def arena_temp_begin_def Let_def split: option.splits)

text \<open>
  \<open>arena_realloc\<close> of a non-null pointer to a non-zero size is the exception:
  it has no test of \<open>head\<close> and reads \<open>head->buffer\<close>.
\<close>

lemma headless_arena_realloc:
  assumes "head d = []" and "ptr \<noteq> NULL" and "new_size \<noteq> 0"
  shows "arena_realloc env (Some d) ptr old_size new_size = None"
  using assms by (simp add: arena_realloc_def)

text \<open>
  C10.  The claim: after \<open>destroy\<close> the arena behaves as an invalid arena for
  every later operation.  The code on a fresh arena of 1024 bytes that is
  destroyed: \<open>arena_alloc_aligned\<close> tests \<open>head\<close> and returns the null pointer, as
  it does for a null arena; \<open>arena_realloc(&arena, 0x1000, 8, 16)\<close> reads
  through the null \<open>head\<close> and has no result.
\<close>

theorem realloc_after_destroy_reads_null_head:
  "arena_destroy (Some (arena_create (libc_at 0x1000) 1024)) =
     Some \<lparr>head = [], alignment = 8, max_align = 16\<rparr> \<and>
   arena_alloc_aligned (libc_at 0x1000)
       (Some \<lparr>head = [], alignment = 8, max_align = 16\<rparr>) 16 8 =
     (NULL, Some \<lparr>head = [], alignment = 8, max_align = 16\<rparr>) \<and>
   arena_realloc (libc_at 0x1000) None 0x1000 8 16 = Some (NULL, None) \<and>
   arena_realloc (libc_at 0x1000)
       (Some \<lparr>head = [], alignment = 8, max_align = 16\<rparr>) 0x1000 8 16 = None"
  by (simp add: example_defs arena_destroy_def arena_realloc_def Let_def)

section \<open>Growth\<close>

text \<open>
  The capacity asked for is twice the capacity of the head block, unless that
  is less than the size, and then twice the size; the numbers are those of the
  natural numbers as long as the doublings fit 64 bits.
\<close>

lemma new_capacity_unat:
  assumes "2 * unat (capacity block) < 2 ^ 64" and "2 * unat sz < 2 ^ 64"
  shows "unat (new_capacity block sz) =
           (if 2 * unat (capacity block) < unat sz then 2 * unat sz else 2 * unat (capacity block))"
  using assms by (simp add: new_capacity_def Let_def word_less_nat_alt double_no_wrap)

lemma block_create_fields:
  "arena_block_create env cap algn = Some nb \<Longrightarrow> capacity nb = cap \<and> used nb = 0"
  by (auto simp: arena_block_create_def Let_def split: option.splits if_splits)

text \<open>
  The growth law as stated asks for a capacity of at least
  \<open>max (2 \<times> old capacity) (2 \<times> S)\<close>.  On an arena of 100 bytes a request of 150
  bytes does not fit; the new block has capacity 200, twice the old one, and
  200 is less than twice the size.
\<close>

theorem growth_capacity_below_twice_size:
  "bump_sum (arena_create (libc_at 0x1000) 100) 150 8 = 150 \<and>
   unat (capacity (hd (head (arena_create (libc_at 0x1000) 100)))) = 100 \<and>
   arena_alloc_aligned (libc_at 0x2000) (Some (arena_create (libc_at 0x1000) 100)) 150 8 =
     (0x2000, Some \<lparr>head = [\<lparr>buffer = 0x2000, capacity = 200, used = 150\<rparr>,
                             \<lparr>buffer = 0x1000, capacity = 100, used = 0\<rparr>],
                      alignment = 8, max_align = 16\<rparr>) \<and>
   \<not> max (2 * unat (100 :: u64)) (2 * unat (150 :: u64)) \<le> unat (200 :: u64)"
  by (simp add: example_defs bump_sum_def padding_of_def Let_def)

text \<open>
  On an address that is a multiple of a power of two, \<open>align_forward\<close> with
  that power of two is the identity: the new block needs no padding.
\<close>

lemma align_forward_aligned:
  assumes "is_pow2 al" and "unat al dvd unat p"
  shows "align_forward p al = p"
proof -
  from assms(1) obtain k where k: "k < 64" and al: "al = 2 ^ k" using is_pow2_exp by blast
  have m: "al - 1 = mask k" by (simp add: al mask_eq_decr_exp)
  have ual: "unat al = 2 ^ k"
  proof -
    have "(2::nat) ^ k < 2 ^ LENGTH(64)"
      using power_strict_increasing [OF k, of "2::nat"] by simp
    then have "unat (of_nat (2 ^ k) :: u64) = 2 ^ k" by (rule of_nat_inverse [OF refl])
    then show ?thesis by (simp add: al)
  qed
  from assms(2) ual have "take_bit k (unat p) = 0" by (simp add: take_bit_eq_0_iff)
  then have tb: "take_bit k p = 0"
    by (metis unsigned_eq_0_iff unsigned_take_bit_eq)
  then have pm: "p AND mask k = 0" by (simp add: take_bit_eq_mask)
  then have "p + mask k = p OR mask k" by (rule disjunctive_add_eq_or)
  then have "(p + mask k) AND NOT (mask k) = p AND NOT (mask k)"
    by (simp add: bit.conj_disj_distrib2)
  also have "\<dots> = p"
    using pm by (metis (no_types, lifting) and.commute bit.de_Morgan_disj
      or.left_neutral take_bit_eq_mask take_bit_not_take_bit
      word_ao_absorbs(2) word_not_not)
  finally show ?thesis by (simp add: align_forward_def m)
qed

text \<open>
  C2, amended.  When the head block cannot take \<open>S > 0\<close> bytes, the new head
  block has twice the capacity of the old head if that is at least \<open>S\<close> and
  twice \<open>S\<close> otherwise, so at least \<open>max (2 \<times> old capacity) S\<close>, and the
  allocation succeeds from it: the address returned is not null, it is the
  start of the new buffer, and the \<open>S\<close> bytes lie in the buffer and end at its
  \<open>used\<close> counter.  This is for a block reserved at a non-null address that is
  a multiple of the effective alignment, a power of two, and for sums and
  doublings that fit 64 bits.
\<close>

theorem growth_creates_block:
  assumes hd: "head a = block # rest" and sz: "sz \<noteq> 0"
    and nofit: "unat (capacity block) < bump_sum a sz algn"
    and fits64: "bump_sum a sz algn < 2 ^ 64"
    and c2: "2 * unat (capacity block) < 2 ^ 64" and s2: "2 * unat sz < 2 ^ 64"
    and res: "arena_block_create env (new_capacity block sz) (alignment a) = Some new_block"
    and nonnull: "buffer new_block \<noteq> NULL"
    and pow2: "is_pow2 (effective_alignment a algn)"
    and aligned: "unat (effective_alignment a algn) dvd unat (buffer new_block)"
  shows "arena_alloc_aligned env (Some a) sz algn =
           (buffer new_block, Some (a\<lparr>head := new_block\<lparr>used := sz\<rparr> # block # rest\<rparr>)) \<and>
         buffer new_block \<noteq> NULL \<and>
         in_block (new_block\<lparr>used := sz\<rparr>) (buffer new_block) sz \<and>
         unat (buffer new_block) + unat sz =
           unat (buffer (new_block\<lparr>used := sz\<rparr>)) + unat (used (new_block\<lparr>used := sz\<rparr>)) \<and>
         capacity new_block = new_capacity block sz \<and>
         unat (new_capacity block sz) =
           (if 2 * unat (capacity block) < unat sz then 2 * unat sz
            else 2 * unat (capacity block)) \<and>
         max (2 * unat (capacity block)) (unat sz) \<le> unat (new_capacity block sz)"
proof -
  define pad where "pad = padding_of a block algn"
  have sum: "bump_sum a sz algn = unat (used block) + unat pad + unat sz"
    using hd by (simp add: bump_sum_def pad_def)
  have "unat (used block + pad + sz) = unat (used block) + unat pad + unat sz"
    using fits64 sum by (simp only: bump_no_wrap)
  with nofit sum have guard: "\<not> used block + pad + sz \<le> capacity block"
    by (simp add: word_le_nat_alt)
  have cap: "capacity new_block = new_capacity block sz"
    using block_create_fields [OF res] by simp
  have ncap: "unat (new_capacity block sz) =
           (if 2 * unat (capacity block) < unat sz then 2 * unat sz
            else 2 * unat (capacity block))"
    using c2 s2 by (rule new_capacity_unat)
  have fit: "unat sz \<le> unat (capacity new_block)"
    using cap ncap by (simp split: if_splits)
  have start: "align_forward (buffer new_block) (effective_alignment a algn) = buffer new_block"
    using pow2 aligned by (rule align_forward_aligned)
  have "arena_alloc_aligned env (Some a) sz algn =
           (align_forward (buffer new_block) (effective_alignment a algn),
            Some (a\<lparr>head := new_block\<lparr>used := sz\<rparr> # block # rest\<rparr>))"
    unfolding arena_alloc_aligned_def Let_def
    using hd sz guard res unfolding pad_def padding_of_def Let_def
    by (simp only: option.case list.case if_False)
  with start cap ncap fit nonnull show ?thesis by (simp add: in_block_def)
qed

theorem growth_creates_block_witness:
  "head (arena_create (libc_at 0x1000) 100) =
     \<lparr>buffer = 0x1000, capacity = 100, used = 0\<rparr> # [] \<and>
   (150 :: u64) \<noteq> 0 \<and>
   unat (capacity \<lparr>buffer = 0x1000, capacity = 100, used = 0\<rparr>)
     < bump_sum (arena_create (libc_at 0x1000) 100) 150 8 \<and>
   bump_sum (arena_create (libc_at 0x1000) 100) 150 8 < 2 ^ 64 \<and>
   arena_block_create (libc_at 0x2000)
       (new_capacity \<lparr>buffer = 0x1000, capacity = 100, used = 0\<rparr> 150)
       (alignment (arena_create (libc_at 0x1000) 100)) =
     Some \<lparr>buffer = 0x2000, capacity = 200, used = 0\<rparr> \<and>
   is_pow2 (effective_alignment (arena_create (libc_at 0x1000) 100) 8) \<and>
   unat (effective_alignment (arena_create (libc_at 0x1000) 100) 8) dvd unat (0x2000 :: u64) \<and>
   arena_alloc_aligned (libc_at 0x2000) (Some (arena_create (libc_at 0x1000) 100)) 150 8 =
     (0x2000, Some \<lparr>head = [\<lparr>buffer = 0x2000, capacity = 200, used = 150\<rparr>,
                             \<lparr>buffer = 0x1000, capacity = 100, used = 0\<rparr>],
                      alignment = 8, max_align = 16\<rparr>) \<and>
   in_block \<lparr>buffer = 0x2000, capacity = 200, used = 150\<rparr> 0x2000 150 \<and>
   unat (new_capacity \<lparr>buffer = 0x1000, capacity = 100, used = 0\<rparr> 150) = 200 \<and>
   max (2 * unat (100 :: u64)) (unat (150 :: u64)) \<le> 200"
proof -
  let ?a = "arena_create (libc_at 0x1000) 100"
  let ?b = "\<lparr>buffer = 0x1000, capacity = 100, used = 0\<rparr> :: ArenaBlock"
  let ?nb = "\<lparr>buffer = 0x2000, capacity = 200, used = 0\<rparr> :: ArenaBlock"
  have h: "head ?a = ?b # []" by (simp add: example_defs Let_def)
  have s: "(150 :: u64) \<noteq> 0" by simp
  have bs: "bump_sum ?a 150 8 = 150"
    by (simp add: example_defs bump_sum_def padding_of_def Let_def)
  have n: "unat (capacity ?b) < bump_sum ?a 150 8" by (simp add: bs)
  have f: "bump_sum ?a 150 8 < 2 ^ 64" by (simp add: bs)
  have c: "2 * unat (capacity ?b) < 2 ^ 64" by simp
  have d: "2 * unat (150 :: u64) < 2 ^ 64" by simp
  have r: "arena_block_create (libc_at 0x2000) (new_capacity ?b 150) (alignment ?a) = Some ?nb"
    by (simp add: example_defs Let_def)
  have nn: "buffer ?nb \<noteq> NULL" by (simp add: NULL_def)
  have ea: "effective_alignment ?a 8 = 8" by (simp add: example_defs Let_def)
  have p: "is_pow2 (effective_alignment ?a 8)" by (simp add: ea is_pow2_def not_pow2_def)
  have al: "unat (effective_alignment ?a 8) dvd unat (buffer ?nb)" by (simp add: ea)
  from growth_creates_block [OF h s n f c d r nn p al] h n f r p al show ?thesis
    by (simp add: example_defs Let_def)
qed

section \<open>The counters never go down, with three exceptions\<close>

lemma list_all_zip_same:
  "list_all (\<lambda>(b, b'). used b \<le> used b') (zip xs xs)"
  by (induction xs) simp_all

lemma used_nondecreasing_refl: "used_nondecreasing a a"
  by (simp add: used_nondecreasing_def list_all_zip_same)

lemma used_nondecreasing_push:
  "head a' = nb # head a \<Longrightarrow> used_nondecreasing a a'"
  by (simp add: used_nondecreasing_def list_all_zip_same zip_append2)

lemma used_nondecreasing_head:
  "head a = b # rest \<Longrightarrow> head a' = b' # rest \<Longrightarrow> used b \<le> used b' \<Longrightarrow>
   used_nondecreasing a a'"
  by (simp add: used_nondecreasing_def list_all_zip_same)

lemma used_nondecreasing_destroy:
  "head a' = [] \<Longrightarrow> used_nondecreasing a a'"
  by (simp add: used_nondecreasing_def)

lemma alloc_aligned_used_nondecreasing:
  assumes "arena_alloc_aligned env (Some a) sz algn = (p, Some a')"
    and "bump_sum a sz algn < 2 ^ 64"
  shows "used_nondecreasing a a'"
  using assms(1)
proof (cases rule: alloc_aligned_cases)
  case unchanged
  then show ?thesis by (simp add: used_nondecreasing_refl)
next
  case (bump block rest)
  from assms(2) bump(1)
  have "unat (used block) + unat (padding_of a block algn) + unat sz < 2 ^ 64"
    by (simp add: bump_sum_def)
  then have "unat (used block) + unat (padding_of a block algn + sz) < 2 ^ 64"
    using mod_less_eq_dividend [of "unat (padding_of a block algn) + unat sz" "2 ^ 64"]
    by (simp add: unat_word_ariths)
  then have "used block \<le> used block + (padding_of a block algn + sz)"
    by (rule add_no_wrap_le)
  with bump show ?thesis by (auto intro: used_nondecreasing_head)
next
  case (grow block rest new_block)
  then show ?thesis by (auto intro: used_nondecreasing_push)
qed

text \<open>
  The claim as stated excepts \<open>reset\<close> and the end of a temporary scope only.
  A reallocation of the last allocation to a smaller size is done in place and
  moves the counter back: after \<open>alloc(100)\<close> on a fresh arena,
  \<open>realloc(ptr, 100, 10)\<close> sets \<open>used\<close> from 100 to 10.
\<close>

theorem realloc_in_place_lowers_used:
  "arena_alloc (libc_at 0x1000) (Some (arena_create (libc_at 0x1000) 1024)) 100 =
     (0x1000, Some \<lparr>head = [\<lparr>buffer = 0x1000, capacity = 1024, used = 100\<rparr>],
                      alignment = 8, max_align = 16\<rparr>) \<and>
   api_step (libc_at 0x1000) (Realloc 0x1000 100 10)
       \<lparr>head = [\<lparr>buffer = 0x1000, capacity = 1024, used = 100\<rparr>],
        alignment = 8, max_align = 16\<rparr> =
     Some \<lparr>head = [\<lparr>buffer = 0x1000, capacity = 1024, used = 10\<rparr>],
           alignment = 8, max_align = 16\<rparr> \<and>
   \<not> used_nondecreasing
       \<lparr>head = [\<lparr>buffer = 0x1000, capacity = 1024, used = 100\<rparr>],
        alignment = 8, max_align = 16\<rparr>
       \<lparr>head = [\<lparr>buffer = 0x1000, capacity = 1024, used = 10\<rparr>],
        alignment = 8, max_align = 16\<rparr>"
  by (simp add: example_defs arena_realloc_def used_nondecreasing_def Let_def)

text \<open>
  Where the 64-bit sum of the bump test wraps around, the counter goes down as
  well: with \<open>used = 16\<close>, a request of \<open>2^64 - 8\<close> bytes passes the test and
  leaves \<open>used = 8\<close>.  The statement below does not cover such calls.
\<close>

lemma alloc_wrapped_sum_lowers_used:
  "arena_alloc (libc_at 0x2000)
       (Some \<lparr>head = [\<lparr>buffer = 0x1000, capacity = 1024, used = 16\<rparr>],
              alignment = 8, max_align = 16\<rparr>) 0xFFFFFFFFFFFFFFF8 =
     (0x1010, Some \<lparr>head = [\<lparr>buffer = 0x1000, capacity = 1024, used = 8\<rparr>],
                      alignment = 8, max_align = 16\<rparr>)"
  by (simp add: example_defs Let_def)

text \<open>
  The same request through \<open>arena_alloc_zeroed\<close> is not defined: the
  \<open>memset\<close> would write \<open>2^64 - 8\<close> bytes from \<open>0x1010\<close>.
\<close>

lemma alloc_zeroed_wrapped_sum_undefined:
  "arena_alloc_zeroed (libc_at 0x2000)
       (Some \<lparr>head = [\<lparr>buffer = 0x1000, capacity = 1024, used = 16\<rparr>],
              alignment = 8, max_align = 16\<rparr>) 0xFFFFFFFFFFFFFFF8 = None"
  by (simp add: example_defs Let_def)

text \<open>
  C4, amended.  For every call of the API on an arena other than \<open>reset\<close>, the
  end of a temporary scope and a reallocation to a smaller size, and whose
  bump sum fits 64 bits, the counter of every block that is still there after
  the call is at least what it was before (\<open>destroy\<close> releases all blocks).
\<close>

theorem used_never_decreases:
  assumes step: "api_step env c a = Some a'"
    and call: "\<not> may_lower_used c"
    and fits: "fits_64 a c"
  shows "used_nondecreasing a a'"
  using step
proof (cases rule: api_step_cases)
  case same
  then show ?thesis by (simp add: used_nondecreasing_refl)
next
  case (request sz algn p)
  with fits show ?thesis
    by (auto simp: fits_64_def intro: alloc_aligned_used_nondecreasing)
next
  case (inplace ptr old_size new_size block rest)
  from call inplace(1) have le: "old_size \<le> new_size" by simp
  from fits inplace(1,2)
  have sum: "unat (used block) + unat (padding_of a block (alignment a)) + unat new_size < 2 ^ 64"
    by (simp add: fits_64_def bump_sum_def)
  have "ptr = buffer block + used block - old_size"
    using inplace(3) by (simp add: eq_diff_eq)
  then have e: "ptr - buffer block + new_size = used block + (new_size - old_size)"
    by simp
  have "unat (new_size - old_size) \<le> unat new_size"
    using le by (simp add: unat_sub)
  with sum have "unat (used block) + unat (new_size - old_size) < 2 ^ 64" by simp
  then have "used block \<le> used block + (new_size - old_size)" by (rule add_no_wrap_le)
  with e have "used block \<le> ptr - buffer block + new_size" by (simp only:)
  then have le': "used block \<le> used (block\<lparr>used := ptr - buffer block + new_size\<rparr>)"
    by simp
  have hd': "head a' = block\<lparr>used := ptr - buffer block + new_size\<rparr> # rest"
    using inplace(5) by simp
  show ?thesis by (rule used_nondecreasing_head [OF inplace(2) hd' le'])
next
  case reset
  with call show ?thesis by simp
next
  case destroy
  then show ?thesis by (simp add: used_nondecreasing_destroy)
next
  case (temp_end temp)
  with call show ?thesis by simp
qed

theorem used_never_decreases_witness:
  "api_step (libc_at 0x2000) (Realloc 0x1000 100 200)
       \<lparr>head = [\<lparr>buffer = 0x1000, capacity = 1024, used = 100\<rparr>],
        alignment = 8, max_align = 16\<rparr> =
     Some \<lparr>head = [\<lparr>buffer = 0x1000, capacity = 1024, used = 200\<rparr>],
           alignment = 8, max_align = 16\<rparr> \<and>
   \<not> may_lower_used (Realloc 0x1000 100 200) \<and>
   fits_64 \<lparr>head = [\<lparr>buffer = 0x1000, capacity = 1024, used = 100\<rparr>],
            alignment = 8, max_align = 16\<rparr> (Realloc 0x1000 100 200) \<and>
   used_nondecreasing
       \<lparr>head = [\<lparr>buffer = 0x1000, capacity = 1024, used = 100\<rparr>],
        alignment = 8, max_align = 16\<rparr>
       \<lparr>head = [\<lparr>buffer = 0x1000, capacity = 1024, used = 200\<rparr>],
        alignment = 8, max_align = 16\<rparr>"
proof -
  let ?a = "\<lparr>head = [\<lparr>buffer = 0x1000, capacity = 1024, used = 100\<rparr>],
             alignment = 8, max_align = 16\<rparr>"
  let ?a' = "\<lparr>head = [\<lparr>buffer = 0x1000, capacity = 1024, used = 200\<rparr>],
              alignment = 8, max_align = 16\<rparr>"
  have s: "api_step (libc_at 0x2000) (Realloc 0x1000 100 200) ?a = Some ?a'"
    by (simp add: example_defs arena_realloc_def Let_def)
  have c: "\<not> may_lower_used (Realloc 0x1000 100 200)" by simp
  have f: "fits_64 ?a (Realloc 0x1000 100 200)"
    by (simp add: fits_64_def bump_sum_def padding_of_def example_defs Let_def)
  from used_never_decreases [OF s c f] s c f show ?thesis by simp
qed

section \<open>Alignment of the returned address\<close>

text \<open>
  When the arena's own alignment and its maximum are powers of two, so is the
  alignment an allocation works with, and the address returned on either path
  is a multiple of it (the null pointer, 0, is a multiple as well).
\<close>

lemma effective_alignment_pow2:
  assumes "is_pow2 (alignment a)" and "is_pow2 (max_align a)"
  shows "is_pow2 (effective_alignment a algn)"
  using assms by (simp add: effective_alignment_def Let_def is_pow2_def)

lemma alloc_aligned_is_aligned:
  assumes "is_pow2 (alignment a)" and "is_pow2 (max_align a)"
    and "arena_alloc_aligned env (Some a) sz algn = (p, ap')"
  shows "unat (effective_alignment a algn) dvd unat p"
  using assms(3)
proof (cases rule: alloc_aligned_cases)
  case unchanged
  then show ?thesis by (simp add: NULL_def)
next
  case (bump block rest)
  then show ?thesis
    using align_forward_multiple [OF effective_alignment_pow2 [OF assms(1,2)]] by simp
next
  case (grow block rest new_block)
  then show ?thesis
    using align_forward_multiple [OF effective_alignment_pow2 [OF assms(1,2)]] by simp
qed

text \<open>
  The single-buffer version stores the alignment after it has replaced a zero
  or a non-power of two by the default and capped it: the arenas it creates
  have powers of two in both fields, and its allocations are aligned.
\<close>

lemma create_v1_alignment_pow2:
  assumes "a = arena_create_with_alignment_v1 env cap algn" and "v1_max_align a \<noteq> 0"
  shows "is_pow2 (v1_alignment a) \<and> is_pow2 (v1_max_align a)"
  using assms
  by (auto simp: arena_create_with_alignment_v1_def Let_def is_pow2_def not_pow2_def
      ARENA_DEFAULT_ALIGNMENT_def ARENA_MAX_ALIGNMENT_def split: option.splits if_splits)

lemma alloc_aligned_v1_is_aligned:
  assumes "is_pow2 (v1_alignment a)" and "is_pow2 (v1_max_align a)"
  shows "unat (effective_alignment_v1 a algn) dvd unat (fst (arena_alloc_aligned_v1 (Some a) sz algn))"
proof -
  have "is_pow2 (effective_alignment_v1 a algn)"
    using assms by (simp add: effective_alignment_v1_def Let_def is_pow2_def)
  from align_forward_multiple [OF this] show ?thesis
    by (simp add: arena_alloc_aligned_v1_def Let_def NULL_def)
qed

text \<open>
  C5.  The claim: the address returned by a successful aligned allocation is a
  multiple of the effective alignment.  The multi-block
  \<open>arena_create_with_alignment\<close> normalises the alignment for the block only
  and stores the argument as it came.  Created with alignment 3, the arena has
  the default alignment 3; a request with alignment 3 (or 0, or through
  \<open>arena_alloc\<close>) works with 3, and \<open>align_forward\<close> with 3 clears bit 1 only.
  The first allocation of 10 bytes returns \<open>0x1000\<close>, the second \<open>0x100C\<close>:
  neither is a multiple of 3, and the second is no multiple of the documented
  default 8 either.
\<close>

theorem raw_default_alignment_misaligns:
  "arena_create_with_alignment (libc_at 0x1000) 1024 3 =
     \<lparr>head = [\<lparr>buffer = 0x1000, capacity = 1024, used = 0\<rparr>], alignment = 3, max_align = 16\<rparr> \<and>
   effective_alignment (arena_create_with_alignment (libc_at 0x1000) 1024 3) 3 = 3 \<and>
   arena_alloc_aligned (libc_at 0x1000)
       (Some (arena_create_with_alignment (libc_at 0x1000) 1024 3)) 10 3 =
     (0x1000, Some \<lparr>head = [\<lparr>buffer = 0x1000, capacity = 1024, used = 10\<rparr>],
                      alignment = 3, max_align = 16\<rparr>) \<and>
   \<not> unat (3 :: u64) dvd unat (0x1000 :: u64) \<and>
   arena_alloc_aligned (libc_at 0x1000)
       (Some \<lparr>head = [\<lparr>buffer = 0x1000, capacity = 1024, used = 10\<rparr>],
              alignment = 3, max_align = 16\<rparr>) 10 3 =
     (0x100C, Some \<lparr>head = [\<lparr>buffer = 0x1000, capacity = 1024, used = 22\<rparr>],
                      alignment = 3, max_align = 16\<rparr>) \<and>
   \<not> unat (3 :: u64) dvd unat (0x100C :: u64) \<and>
   \<not> unat (8 :: u64) dvd unat (0x100C :: u64)"
  by (simp add: example_defs Let_def)

section \<open>The range handed out\<close>

text \<open>
  On the bump path the range returned ends where the counter of the head block
  ends: \<open>address + size = buffer + used\<close>.
\<close>

lemma bump_range_ends_at_used:
  assumes "arena_alloc_aligned env (Some a) sz algn = (p, Some a')"
    and "length (head a') = length (head a)" and "p \<noteq> NULL"
  shows "p + sz = buffer (hd (head a')) + used (hd (head a'))"
  using assms(1)
proof (cases rule: alloc_aligned_cases)
  case unchanged
  with assms(3) show ?thesis by simp
next
  case (bump block rest)
  then show ?thesis by (simp add: padding_of_def Let_def)
next
  case (grow block rest new_block)
  with assms(2) show ?thesis by simp
qed

text \<open>
  C9.  The claim: a range returned lies below \<open>buffer + used\<close> of the head
  block, and ranges returned between two resets do not overlap, also on the
  growth path with an alignment larger than that of the new buffer.  The
  growth path sets \<open>used\<close> to the size and leaves the padding out.  On an arena
  of 16 bytes, 24 bytes are requested with alignment 16 and the new buffer
  comes at \<open>0x2008\<close>: the call returns \<open>0x2010\<close> and sets \<open>used = 24\<close>, so the
  range ends at \<open>0x2028\<close>, above \<open>buffer + used = 0x2020\<close>.  The next
  allocation of 8 bytes returns \<open>0x2020\<close>, inside the first range.
\<close>

theorem growth_path_ignores_padding:
  "arena_alloc_aligned (libc_at 0x2008) (Some (arena_create (libc_at 0x1000) 16)) 24 16 =
     (0x2010, Some \<lparr>head = [\<lparr>buffer = 0x2008, capacity = 32, used = 24\<rparr>,
                             \<lparr>buffer = 0x1000, capacity = 16, used = 0\<rparr>],
                      alignment = 8, max_align = 16\<rparr>) \<and>
   \<not> unat (0x2010 :: u64) + 24 \<le> unat (0x2008 :: u64) + 24 \<and>
   arena_alloc (libc_at 0x3000)
       (Some \<lparr>head = [\<lparr>buffer = 0x2008, capacity = 32, used = 24\<rparr>,
                     \<lparr>buffer = 0x1000, capacity = 16, used = 0\<rparr>],
              alignment = 8, max_align = 16\<rparr>) 8 =
     (0x2020, Some \<lparr>head = [\<lparr>buffer = 0x2008, capacity = 32, used = 32\<rparr>,
                             \<lparr>buffer = 0x1000, capacity = 16, used = 0\<rparr>],
                      alignment = 8, max_align = 16\<rparr>) \<and>
   unat (0x2010 :: u64) \<le> unat (0x2020 :: u64) \<and>
   unat (0x2020 :: u64) < unat (0x2010 :: u64) + 24"
  by (simp add: example_defs Let_def)

text \<open>With 32 bytes requested the range ends 8 bytes behind the end of the buffer.\<close>

lemma growth_path_overruns_buffer:
  "arena_alloc_aligned (libc_at 0x2008) (Some (arena_create (libc_at 0x1000) 16)) 32 16 =
     (0x2010, Some \<lparr>head = [\<lparr>buffer = 0x2008, capacity = 32, used = 32\<rparr>,
                             \<lparr>buffer = 0x1000, capacity = 16, used = 0\<rparr>],
                      alignment = 8, max_align = 16\<rparr>) \<and>
   unat (0x2008 :: u64) + 32 < unat (0x2010 :: u64) + 32"
  by (simp add: example_defs Let_def)

section \<open>The counter and the capacity\<close>

text \<open>
  \<open>used \<le> capacity\<close> in every block is kept by every call whose doublings
  on the growth path fit 64 bits, with a token whose counter is within the head
  block; a fresh arena has it.
\<close>

lemma reset_blocks_ok: "list_all (\<lambda>b. used b \<le> capacity b) (reset_blocks bs)"
  by (induction bs) simp_all

lemma api_step_keeps_blocks_ok:
  assumes ok: "blocks_ok a"
    and step: "api_step env c a = Some a'"
    and grow: "growth_fits a c"
    and tok: "token_fits a c"
  shows "blocks_ok a'"
  using step
proof (cases rule: api_step_cases)
  case same
  with ok show ?thesis by simp
next
  case (request sz algn p)
  from request(2) show ?thesis
  proof (cases rule: alloc_aligned_cases)
    case unchanged
    with ok show ?thesis by simp
  next
    case (bump block rest)
    with ok show ?thesis by (simp add: blocks_ok_def add.assoc)
  next
    case (grow block rest new_block)
    from \<open>growth_fits a c\<close> request(1) grow(1)
    have c2: "2 * unat (capacity block) < 2 ^ 64" and s2: "2 * unat sz < 2 ^ 64"
      by (simp_all add: growth_fits_def)
    have "unat sz \<le> unat (new_capacity block sz)"
      using new_capacity_unat [OF c2 s2] by (simp split: if_splits)
    then have "sz \<le> capacity new_block"
      using block_create_fields [OF grow(4)] by (simp add: word_le_nat_alt)
    with ok grow show ?thesis by (simp add: blocks_ok_def)
  qed
next
  case (inplace ptr old_size new_size block rest)
  with ok show ?thesis by (simp add: blocks_ok_def)
next
  case reset
  then show ?thesis by (simp add: blocks_ok_def reset_blocks_ok)
next
  case destroy
  then show ?thesis by (simp add: blocks_ok_def)
next
  case (temp_end temp)
  with ok tok show ?thesis
    by (auto simp: blocks_ok_def token_fits_def arena_temp_end_def split: list.splits)
qed

lemma create_blocks_ok: "blocks_ok (arena_create_with_alignment env cap algn)"
  by (auto simp: blocks_ok_def arena_create_with_alignment_def arena_block_create_def Let_def
      split: option.splits)

text \<open>
  Through \<open>arena_calloc\<close> the same size is not defined: the \<open>memset\<close> would
  write \<open>2^63 + 1\<close> bytes into the block of 2.
\<close>

lemma calloc_wrapped_growth_undefined:
  "arena_calloc (libc_at 0x2000) (Some (arena_create (libc_at 0x1000) 16))
       0x8000000000000001 1 = None"
  by (simp add: example_defs Let_def)

text \<open>
  C7.  The claim: after every call \<open>used \<le> capacity\<close> in every block.  On
  an arena of 16 bytes a request of \<open>2^63 + 1\<close> bytes does not fit; twice 16
  is less than the size, so the capacity asked for is twice the size, which is
  2 in 64 bits.  The new head block has capacity 2 and \<open>used = 2^63 + 1\<close>.
\<close>

theorem growth_overflow_breaks_used_le_capacity:
  "blocks_ok (arena_create (libc_at 0x1000) 16) \<and>
   api_step (libc_at 0x2000) (Alloc 0x8000000000000001) (arena_create (libc_at 0x1000) 16) =
     Some \<lparr>head = [\<lparr>buffer = 0x2000, capacity = 2, used = 0x8000000000000001\<rparr>,
                  \<lparr>buffer = 0x1000, capacity = 16, used = 0\<rparr>],
           alignment = 8, max_align = 16\<rparr> \<and>
   \<not> blocks_ok \<lparr>head = [\<lparr>buffer = 0x2000, capacity = 2, used = 0x8000000000000001\<rparr>,
                       \<lparr>buffer = 0x1000, capacity = 16, used = 0\<rparr>],
                alignment = 8, max_align = 16\<rparr>"
  by (simp add: example_defs blocks_ok_def Let_def)

section \<open>Rollback of a temporary scope\<close>









text \<open>
  With growth inside the scope the end restores the counter of the new head
  only: from \<open>used() = 8\<close> the sum over the blocks becomes 16.
\<close>

lemma growth_inside_scope_defeats_rollback:
  "run_item (Scope [Call (libc_at 0x2000) (Alloc 100)])
     \<lparr>head = [\<lparr>buffer = 0x1000, capacity = 16, used = 8\<rparr>], alignment = 8, max_align = 16\<rparr> =
     Some \<lparr>head = [\<lparr>buffer = 0x2000, capacity = 200, used = 8\<rparr>,
                  \<lparr>buffer = 0x1000, capacity = 16, used = 8\<rparr>],
           alignment = 8, max_align = 16\<rparr> \<and>
   arena_used (Some \<lparr>head = [\<lparr>buffer = 0x2000, capacity = 200, used = 8\<rparr>,
                            \<lparr>buffer = 0x1000, capacity = 16, used = 8\<rparr>],
                     alignment = 8, max_align = 16\<rparr>) = 16"
  by (simp add: example_defs arena_temp_begin_def arena_temp_end_def arena_used_def Let_def)



end
